theory Spec2Isabelle
  imports Main "HOL-Library.Word"
begin

section \<open>Request recorder: capture and replay of HTTP transactions\<close>

text \<open>
  A shallow embedding of \<^verbatim>\<open>header.go\<close> and \<^verbatim>\<open>server.go\<close> (the capture
  handler, the body classifier, the multipart decomposition, the sequence seeding and the
  replay body builder). Go strings and byte slices are \<^typ>\<open>string\<close> (a \<^typ>\<open>char\<close> is
  one byte); Go maps are partial functions, a nil map and an empty one reading alike.
  Errors a function returns are values; a runtime panic and \<^verbatim>\<open>log.Fatalf\<close> (which
  ends the process) are outcomes of their own.
\<close>

subsection \<open>Errors and results\<close>

datatype error =
  EOF
  | ErrUnexpectedEOF
  | IOError string
  | InvalidJson
  | MissingFormBody
  | MultipartError string
  | OpenDirError string
  | NotExist string
  | CompactError

datatype 'a result = Ok 'a | Err error | Panic

subsection \<open>header.go\<close>

text \<open>
  \<^verbatim>\<open>type Header map[string]interface{}\<close>: a value is a string, a string slice, or
  a value of any other dynamic type (which the conversions skip).
\<close>

datatype hvalue = Str string | Strs "string list" | Other

type_synonym Header = "string \<rightharpoonup> hvalue"
type_synonym http_header = "string \<rightharpoonup> string list"

definition ToHttpHeader :: "Header \<Rightarrow> http_header" where
  "ToHttpHeader h = (\<lambda>k.
     case h k of
       None \<Rightarrow> None
     | Some (Str v) \<Rightarrow> Some [v]
     | Some (Strs v) \<Rightarrow> Some v
     | Some Other \<Rightarrow> None)"

text \<open>
  \<^verbatim>\<open>FromHttpHeader\<close> returns at once on an empty header and otherwise assigns, for
  every key whose value sequence is not empty, the single value or the whole sequence. The
  keys of a Go map are distinct, so the loop is the key-wise update below.
\<close>

definition FromHttpHeader :: "Header \<Rightarrow> http_header \<Rightarrow> Header" where
  "FromHttpHeader h header =
     (if dom header = {} then h
      else (\<lambda>k.
        case header k of
          None \<Rightarrow> h k
        | Some v \<Rightarrow>
            if length v = 0 then h k
            else if length v = 1 then Some (Str (v ! 0))
            else Some (Strs v)))"

definition FromMIMEHeader :: "Header \<Rightarrow> http_header \<Rightarrow> Header" where
  "FromMIMEHeader h header = FromHttpHeader h header"

text \<open>\<^verbatim>\<open>http.Header.Get\<close> and \<^verbatim>\<open>Set\<close> on a key already in canonical form.\<close>

definition hget :: "http_header \<Rightarrow> string \<Rightarrow> string" where
  "hget h k = (case h k of None \<Rightarrow> [] | Some [] \<Rightarrow> [] | Some (v # _) \<Rightarrow> v)"

definition hset :: "http_header \<Rightarrow> string \<Rightarrow> string \<Rightarrow> http_header" where
  "hset h k v = h(k \<mapsto> [v])"

subsection \<open>The platform: standard library tables and the operating system\<close>

text \<open>
  The Unicode tables, the MIME type table, the JSON scanner and the failures of the
  operating system are not code of this repository: they are fields of a platform, and
  every theorem holds for every platform. A rune is its code point.
\<close>

record platform =
  IsLetter :: "nat \<Rightarrow> bool"
  IsDigit :: "nat \<Rightarrow> bool"
  IsSpace :: "nat \<Rightarrow> bool"
  ExtensionsByType :: "string \<Rightarrow> string list"
  TypeByExtension :: "string \<Rightarrow> string"
  Valid :: "string \<Rightarrow> bool"
  Compact :: "string \<Rightarrow> string option"
  create_error :: "string \<Rightarrow> error option"
  write_error :: "string \<Rightarrow> string \<Rightarrow> error option"

text \<open>The files of the file system, by path.\<close>

type_synonym filesys = "string \<rightharpoonup> string"

definition os_Create :: "platform \<Rightarrow> filesys \<Rightarrow> string \<Rightarrow> unit result \<times> filesys" where
  "os_Create pf fs name =
     (case create_error pf name of
        Some e \<Rightarrow> (Err e, fs)
      | None \<Rightarrow> (Ok (), fs(name \<mapsto> [])))"

definition file_Write :: "platform \<Rightarrow> filesys \<Rightarrow> string \<Rightarrow> string \<Rightarrow> unit result \<times> filesys" where
  "file_Write pf fs name bytes =
     (case write_error pf name bytes of
        Some e \<Rightarrow> (Err e, fs)
      | None \<Rightarrow> (Ok (), fs(name \<mapsto> (case fs name of None \<Rightarrow> [] | Some old \<Rightarrow> old) @ bytes)))"

subsection \<open>Byte streams\<close>

text \<open>
  An \<^verbatim>\<open>io.Reader\<close> is the bytes it still delivers and the error that follows them:
  \<open>EOF\<close> for a stream that ends, another error for a read that fails.
\<close>

record reader =
  pending :: string
  ending :: error

text \<open>
  \<^verbatim>\<open>io.ReadFull(r, buf)\<close> with \<open>len(buf) = m\<close>: no error when the buffer is filled;
  otherwise the bytes read and the stream's error, an end of stream after at least one
  byte being \<open>ErrUnexpectedEOF\<close>.
\<close>

definition ReadFull :: "reader \<Rightarrow> nat \<Rightarrow> (string \<times> error option) \<times> reader" where
  "ReadFull r m =
     (if m \<le> length (pending r)
      then ((take m (pending r), None), r\<lparr>pending := drop m (pending r)\<rparr>)
      else ((pending r,
             Some (if 0 < length (pending r) \<and> ending r = EOF then ErrUnexpectedEOF
                   else ending r)),
            r\<lparr>pending := []\<rparr>))"

text \<open>\<^verbatim>\<open>io.ReadAll(io.LimitReader(r, m))\<close>: at most \<open>m\<close> bytes, and no look beyond them.\<close>

definition ReadAll_Limit :: "reader \<Rightarrow> nat \<Rightarrow> string result" where
  "ReadAll_Limit r m =
     (if m \<le> length (pending r) then Ok (take m (pending r))
      else if ending r = EOF then Ok (pending r)
      else Err (ending r))"

text \<open>
  \<^verbatim>\<open>io.Copy(f, r)\<close>: the remaining bytes are written to the file, then the stream's
  error is returned unless it is the end of the stream.
\<close>

definition io_Copy :: "platform \<Rightarrow> filesys \<Rightarrow> string \<Rightarrow> reader \<Rightarrow> unit result \<times> filesys" where
  "io_Copy pf fs name r =
     (case (if pending r = [] then (Ok (), fs) else file_Write pf fs name (pending r)) of
        (Ok u, fs') \<Rightarrow> (if ending r = EOF then (Ok (), fs') else (Err (ending r), fs'))
      | (Err e, fs') \<Rightarrow> (Err e, fs')
      | (Panic, fs') \<Rightarrow> (Panic, fs'))"

subsection \<open>Runes of a string\<close>

text \<open>
  \<^verbatim>\<open>for _, r := range string(buffer)\<close> decodes UTF-8: a byte that starts no valid
  encoding yields \<open>U+FFFD\<close> and the scan moves on by one byte.
\<close>

definition RuneError :: nat where
  "RuneError = 0xFFFD"

fun decodeRune :: "nat list \<Rightarrow> nat \<times> nat" where
  "decodeRune [] = (RuneError, 1)"
| "decodeRune (b0 # bs) =
     (if b0 < 0x80 then (b0, 1)
      else if b0 < 0xC2 then (RuneError, 1)
      else if 0xF4 < b0 then (RuneError, 1)
      else
        let sz = (if b0 < 0xE0 then 2 else if b0 < 0xF0 then 3 else (4::nat));
            lo = (if b0 = 0xE0 then 0xA0 else if b0 = 0xF0 then 0x90 else 0x80);
            hi = (if b0 = 0xED then 0x9F else if b0 = 0xF4 then 0x8F else 0xBF)
        in
          if length bs + 1 < sz then (RuneError, 1)
          else if bs ! 0 < lo then (RuneError, 1)
          else if hi < bs ! 0 then (RuneError, 1)
          else if sz \<le> 2 then ((b0 mod 32) * 64 + bs ! 0 mod 64, 2)
          else if bs ! 1 < 0x80 then (RuneError, 1)
          else if 0xBF < bs ! 1 then (RuneError, 1)
          else if sz \<le> 3
            then ((b0 mod 16) * 4096 + (bs ! 0 mod 64) * 64 + bs ! 1 mod 64, 3)
          else if bs ! 2 < 0x80 then (RuneError, 1)
          else if 0xBF < bs ! 2 then (RuneError, 1)
          else ((b0 mod 8) * 262144 + (bs ! 0 mod 64) * 4096 + (bs ! 1 mod 64) * 64
                + bs ! 2 mod 64, 4))"

function runes_of :: "nat list \<Rightarrow> nat list" where
  "runes_of [] = []"
| "runes_of (b # bs) =
     fst (decodeRune (b # bs)) # runes_of (drop (snd (decodeRune (b # bs)) - 1) bs)"
  by pat_completeness auto
termination
  by (relation "measure length") (simp_all del: decodeRune.simps)

definition runes :: "string \<Rightarrow> nat list" where
  "runes s = runes_of (map of_char s)"

subsection \<open>Strings and paths\<close>

definition Contains :: "string \<Rightarrow> string \<Rightarrow> bool" where
  "Contains s sub = list_ex (\<lambda>i. take (length sub) (drop i s) = sub) [0 ..< Suc (length s)]"

definition TrimSuffix :: "string \<Rightarrow> string \<Rightarrow> string" where
  "TrimSuffix s suffix =
     (if length suffix \<le> length s \<and> drop (length s - length suffix) s = suffix
      then take (length s - length suffix) s
      else s)"

text \<open>
  \<^verbatim>\<open>filepath.Ext\<close>: the suffix from the last dot of the last path element, found by
  scanning backwards up to a separator.
\<close>

fun ext_scan :: "string \<Rightarrow> string \<Rightarrow> string" where
  "ext_scan [] acc = []"
| "ext_scan (c # cs) acc =
     (if c = CHR ''/'' then []
      else if c = CHR ''.'' then c # acc
      else ext_scan cs (c # acc))"

definition Ext :: "string \<Rightarrow> string" where
  "Ext path = ext_scan (rev path) []"

subsection \<open>Body classification (server.go)\<close>

definition isContentMultiPart :: "string \<Rightarrow> bool" where
  "isContentMultiPart contentType = Contains contentType ''multipart/form-data''"

definition isContentJson :: "string \<Rightarrow> bool" where
  "isContentJson contentType = Contains contentType ''/json''"

definition readJson :: "platform \<Rightarrow> reader \<Rightarrow> string result" where
  "readJson pf r =
     (case ReadAll_Limit r (2 ^ 20) of
        Err e \<Rightarrow> Err e
      | Panic \<Rightarrow> Panic
      | Ok data \<Rightarrow> if \<not> Valid pf data then Err InvalidJson else Ok data)"

text \<open>
  The block at the label \<^verbatim>\<open>saveFile\<close>. The guard \<^verbatim>\<open>len(ext) >= 0\<close> holds for
  every slice, so \<^verbatim>\<open>ext[0]\<close> is evaluated also when the slice is empty, which is an
  index out of range.
\<close>

definition saveFile ::
  "platform \<Rightarrow> filesys \<Rightarrow> string \<Rightarrow> reader \<Rightarrow> string \<Rightarrow> string
    \<Rightarrow> (string \<times> string) result \<times> filesys" where
  "saveFile pf fs buffer r contentType recommendFilename =
     (let ext = ExtensionsByType pf contentType in
      case (if (0::int) \<le> int (length ext)
            then (case ext of
                    [] \<Rightarrow> Panic
                  | e0 # _ \<Rightarrow> Ok (TrimSuffix recommendFilename (Ext recommendFilename) @ e0))
            else Ok recommendFilename) of
        Panic \<Rightarrow> (Panic, fs)
      | Err e \<Rightarrow> (Err e, fs)
      | Ok name \<Rightarrow>
          (case os_Create pf fs name of
             (Err e, fs1) \<Rightarrow> (Err e, fs1)
           | (Panic, fs1) \<Rightarrow> (Panic, fs1)
           | (Ok u, fs1) \<Rightarrow>
               (case (if 0 < length buffer then file_Write pf fs1 name buffer
                      else (Ok (), fs1)) of
                  (Err e, fs2) \<Rightarrow> (Err e, fs2)
                | (Panic, fs2) \<Rightarrow> (Panic, fs2)
                | (Ok u, fs2) \<Rightarrow>
                    (case io_Copy pf fs2 name r of
                       (Err e, fs3) \<Rightarrow> (Err e, fs3)
                     | (Panic, fs3) \<Rightarrow> (Panic, fs3)
                     | (Ok u, fs3) \<Rightarrow> (Ok ([], name), fs3)))))"

definition printable :: "platform \<Rightarrow> nat \<Rightarrow> bool" where
  "printable pf r = (IsLetter pf r \<or> IsDigit pf r \<or> IsSpace pf r)"

text \<open>The result of \<^verbatim>\<open>saveBody\<close> is the pair (inline text, file name).\<close>

definition saveBody ::
  "platform \<Rightarrow> filesys \<Rightarrow> reader \<Rightarrow> string \<Rightarrow> string
    \<Rightarrow> (string \<times> string) result \<times> filesys" where
  "saveBody pf fs r contentType recommendFilename =
     (case ReadFull r (64 * 1024) of
        ((buffer, err), r') \<Rightarrow>
          (case err of
             Some e \<Rightarrow>
               if e = EOF then (Ok ([], []), fs)
               else if e = ErrUnexpectedEOF
               then (if list_all (printable pf) (runes buffer) then (Ok (buffer, []), fs)
                     else saveFile pf fs buffer r' contentType recommendFilename)
               else (Err e, fs)
           | None \<Rightarrow> saveFile pf fs buffer r' contentType recommendFilename))"

section \<open>Properties\<close>

subsection \<open>Header folding\<close>

lemma ToHttpHeader_FromHttpHeader_at:
  assumes "\<And>v. H k = Some v \<Longrightarrow> v \<noteq> []"
  shows "ToHttpHeader (FromHttpHeader Map.empty H) k = H k"
proof (cases "H k")
  case None
  then show ?thesis
    by (simp add: ToHttpHeader_def FromHttpHeader_def)
next
  case (Some v)
  with assms have ne: "v \<noteq> []" by simp
  from Some have d: "dom H \<noteq> {}" by auto
  show ?thesis
  proof (cases v)
    case Nil
    with ne show ?thesis by simp
  next
    case (Cons x xs)
    with Some d show ?thesis
      by (cases xs) (simp_all add: ToHttpHeader_def FromHttpHeader_def)
  qed
qed

text \<open>
  C6. For every wire header multimap \<open>H\<close> in which every key maps to a non-empty sequence
  of values, unfolding the folded map gives \<open>H\<close> back: a single-valued key becomes a scalar
  and then a one-element sequence again, a multi-valued key keeps its sequence.
\<close>

theorem header_roundtrip:
  assumes "\<forall>k v. H k = Some v \<longrightarrow> v \<noteq> []"
  shows "ToHttpHeader (FromHttpHeader Map.empty H) = H
    \<and> (\<forall>k x. H k = Some [x] \<longrightarrow> FromHttpHeader Map.empty H k = Some (Str x))
    \<and> (\<forall>k v. H k = Some v \<longrightarrow> 1 < length v \<longrightarrow> FromHttpHeader Map.empty H k = Some (Strs v))"
proof (intro conjI allI impI)
  show "ToHttpHeader (FromHttpHeader Map.empty H) = H"
  proof
    fix k
    show "ToHttpHeader (FromHttpHeader Map.empty H) k = H k"
      using assms by (intro ToHttpHeader_FromHttpHeader_at) simp
  qed
next
  fix k x
  assume "H k = Some [x]"
  moreover from this have "dom H \<noteq> {}" by auto
  ultimately show "FromHttpHeader Map.empty H k = Some (Str x)"
    by (simp add: FromHttpHeader_def)
next
  fix k v
  assume "H k = Some v" and "1 < length v"
  moreover from this have "dom H \<noteq> {}" by auto
  ultimately show "FromHttpHeader Map.empty H k = Some (Strs v)"
    by (auto simp add: FromHttpHeader_def)
qed

theorem header_roundtrip_witness:
  "ToHttpHeader (FromHttpHeader Map.empty
      [''Accept'' \<mapsto> [''text/html'', ''*/*''], ''Host'' \<mapsto> [''example.org'']])
    = [''Accept'' \<mapsto> [''text/html'', ''*/*''], ''Host'' \<mapsto> [''example.org'']]
   \<and> FromHttpHeader Map.empty
      [''Accept'' \<mapsto> [''text/html'', ''*/*''], ''Host'' \<mapsto> [''example.org'']] ''Host''
    = Some (Str ''example.org'')
   \<and> FromHttpHeader Map.empty
      [''Accept'' \<mapsto> [''text/html'', ''*/*''], ''Host'' \<mapsto> [''example.org'']] ''Accept''
    = Some (Strs [''text/html'', ''*/*''])"
proof -
  let ?H = "[''Accept'' \<mapsto> [''text/html'', ''*/*''], ''Host'' \<mapsto> [''example.org'']]"
  have h: "\<forall>k v. ?H k = Some v \<longrightarrow> v \<noteq> []"
    by (auto split: if_splits)
  have a: "?H ''Host'' = Some [''example.org'']" by simp
  have b: "?H ''Accept'' = Some [''text/html'', ''*/*'']" by simp
  from header_roundtrip [OF h] a b show ?thesis
    by (metis One_nat_def length_Cons lessI list.size(3))
qed

end
